theory Spec2Isabelle
  imports Complex_Main
begin

section \<open>Data model of the tile (Tile.ts)\<close>

text \<open>
  The model follows \<^verbatim>\<open>Tile.ts\<close>.  JavaScript objects that are compared by identity
  (textures, geometries, materials, text elements) carry a numeric identity.  Frame
  numbers are integer counters and are modelled as \<^typ>\<open>int\<close>; byte sizes and element
  counts are natural numbers.  Values that the tile only stores and copies (coordinates,
  areas, decode times, label priorities) are real numbers.
\<close>

subsection \<open>Renderable objects (the part of THREE.Object3D that the tile reads)\<close>

datatype Texture = Texture (textureId: nat)

datatype BufferGeometry = BufferGeometry (geometryId: nat)

text \<open>The value of one own property of a material, as \<^verbatim>\<open>disposeMaterial\<close> classifies it.\<close>

datatype MaterialProperty = UndefinedProperty | TextureProperty Texture | OtherProperty

record Material =
  materialId :: nat
  properties :: "(string \<times> MaterialProperty) list"

text \<open>\<^verbatim>\<open>material?: THREE.Material[] | THREE.Material\<close>; an array slot may be undefined.\<close>

datatype MaterialSlot = SingleMaterial Material | MaterialArray "Material option list"

datatype Object3D =
  Object3D (visible: bool) (geometry: "BufferGeometry option")
    (material: "MaterialSlot option") (children: "Object3D list")

type_synonym TileObject = Object3D

subsection \<open>Road intersection data and its size estimate\<close>

record RoadIntersectionData =
  ids :: "int option list option"
  techniqueIndex :: "int list"
  starts :: "int list"
  widths :: "real list"
  positions :: "real list"
  rid_techniques :: "string list"
  objInfos :: "string option list option"

definition MINIMUM_SMALL_OBJECT_SIZE_ESTIMATION :: nat where
  "MINIMUM_SMALL_OBJECT_SIZE_ESTIMATION = 16"

definition MINIMUM_OBJECT_SIZE_ESTIMATION :: nat where
  "MINIMUM_OBJECT_SIZE_ESTIMATION = 100"

definition getRoadIntersectionDataSize :: "RoadIntersectionData \<Rightarrow> nat" where
  "getRoadIntersectionDataSize intersectionData =
     (let numBytes0 = MINIMUM_OBJECT_SIZE_ESTIMATION;
          bytesPerEntry = 8 + 8 + 8 + 8 + MINIMUM_OBJECT_SIZE_ESTIMATION;
          numEntries = length (techniqueIndex intersectionData);
          numBytes1 = numBytes0 + length (techniqueIndex intersectionData) * bytesPerEntry;
          numBytes2 = (if ids intersectionData \<noteq> None then numBytes1 + numEntries * 8
                       else numBytes1);
          numBytes3 = (if objInfos intersectionData \<noteq> None
                       then numBytes2 + numEntries * MINIMUM_SMALL_OBJECT_SIZE_ESTIMATION
                       else numBytes2)
      in numBytes3)"

subsection \<open>Loader handles, decoded content, ledger\<close>

datatype TileLoaderState = Initialized | Loading | Loaded | Decoding | Ready | Canceled | Failed

record ITileLoader =
  loaderState :: TileLoaderState
  loaderIsFinished :: bool

record TileGeometryLoader =
  gl_basicGeometryLoaded :: bool
  gl_allGeometryLoaded :: bool
  gl_isFinished :: bool

datatype AnimatedExtrusionTileHandler = AnimatedExtrusionTileHandler

record Vector3 =
  vx :: real
  vy :: real
  vz :: real

record OrientedBox3 =
  position :: Vector3
  xAxis :: Vector3
  yAxis :: Vector3
  zAxis :: Vector3
  extents :: Vector3

record GeoBox =
  south :: real
  west :: real
  north :: real
  east :: real

record TileKey =
  row :: nat
  column :: nat
  level :: nat

record TileInfo =
  numBytes :: nat

record DecodedTile =
  techniques :: "string list"
  geometries :: "nat list"
  dt_boundingBox :: "OrientedBox3 option"
  tileInfo :: "TileInfo option"
  decodeTime :: "real option"

definition defaultEmptyDecodedTile :: DecodedTile where
  "defaultEmptyDecodedTile =
     \<lparr>techniques = [], geometries = [], dt_boundingBox = None, tileInfo = None,
      decodeTime = None\<rparr>"

record TileResourceInfo =
  heapSize :: nat
  gpuSize :: nat
  num3dObjects :: nat
  numTextElements :: nat
  numUserTextElements :: nat

subsection \<open>Text elements and the grouped priority list\<close>

text \<open>
  Text elements are mutable objects shared by reference: a tile stores references, and the
  current priority of an element is read from the store at the time of each call.
\<close>

type_synonym TextElementRef = nat

record TextElement =
  priority :: real
  label :: string

type_synonym TextElementStore = "TextElementRef \<Rightarrow> TextElement"

text \<open>
  Modelled from the spec: the class \<^verbatim>\<open>GroupedPriorityList\<close> of the package
  \<^verbatim>\<open>@here/harp-utils\<close> is not part of the sources at hand.  Following section 4.4 of the
  specification it is a map from the caller-supplied priority value to a bucket, with
  insertion order preserved within a bucket; \<^verbatim>\<open>Tile.computeResourceInfo\<close> reads it as
  \<^verbatim>\<open>groups\<close>, pairs of a key and a group with its \<^verbatim>\<open>elements\<close>.  The buckets are kept
  in the order of their creation.
\<close>

type_synonym GroupedPriorityList = "(real \<times> TextElementRef list) list"

text \<open>
  Modelled from the spec: \<^verbatim>\<open>GroupedPriorityList.add\<close>, which "appends to the group
  bucket, creating the bucket if absent".
\<close>

fun addToGroup :: "real \<Rightarrow> TextElementRef \<Rightarrow> GroupedPriorityList \<Rightarrow> GroupedPriorityList" where
  "addToGroup p e [] = [(p, [e])]"
| "addToGroup p e ((k, es) # gs) =
     (if k = p then (k, es @ [e]) # gs else (k, es) # addToGroup p e gs)"

definition GroupedPriorityList_add ::
    "TextElementStore \<Rightarrow> TextElementRef \<Rightarrow> GroupedPriorityList \<Rightarrow> GroupedPriorityList" where
  "GroupedPriorityList_add store e gl = addToGroup (priority (store e)) e gl"

text \<open>
  Modelled from the spec: \<^verbatim>\<open>GroupedPriorityList.remove\<close>, a "linear scan" of the
  bucket of the element's current priority, "equality is by identity"; "a stale reference
  with a different current priority is not found and removal silently fails, returning
  false".  The specification does not say whether an emptied bucket is dropped; the model
  keeps it.
\<close>

fun removeFromGroup ::
    "real \<Rightarrow> TextElementRef \<Rightarrow> GroupedPriorityList \<Rightarrow> bool \<times> GroupedPriorityList" where
  "removeFromGroup p e [] = (False, [])"
| "removeFromGroup p e ((k, es) # gs) =
     (if k = p
      then (if e \<in> set es then (True, (k, remove1 e es) # gs) else (False, (k, es) # gs))
      else (let (found, gs') = removeFromGroup p e gs in (found, (k, es) # gs')))"

definition GroupedPriorityList_remove ::
    "TextElementStore \<Rightarrow> TextElementRef \<Rightarrow> GroupedPriorityList \<Rightarrow> bool \<times> GroupedPriorityList" where
  "GroupedPriorityList_remove store e gl = removeFromGroup (priority (store e)) e gl"

text \<open>Modelled from the spec: \<^verbatim>\<open>GroupedPriorityList.clear\<close>, which "drops all groups".\<close>

definition GroupedPriorityList_clear :: "GroupedPriorityList \<Rightarrow> GroupedPriorityList" where
  "GroupedPriorityList_clear gl = []"

subsection \<open>The tile\<close>

record Tile =
  objects :: "TileObject list"
  dependencies :: "string list"
  tileKey :: TileKey
  offset :: int
  geoBox :: GeoBox
  boundingBox :: OrientedBox3
  roadIntersectionData :: "RoadIntersectionData option"
  copyrightInfo :: "string list option"
  frameNumLastRequested :: int
  frameNumVisible :: int
  frameNumLastVisible :: int
  numFramesVisible :: int
  visibilityCounter :: int
  preparedTextPaths :: "nat list option"
  m_disposed :: bool
  m_localTangentSpace :: bool
  m_forceHasGeometry :: "bool option"
  m_tileLoader :: "ITileLoader option"
  m_decodedTile :: "DecodedTile option"
  m_tileGeometryLoader :: "TileGeometryLoader option"
  m_userTextElements :: "TextElementRef list"
  m_textElementGroups :: GroupedPriorityList
  m_placedTextElements :: GroupedPriorityList
  m_textElementsChanged :: bool
  m_visibleArea :: real
  m_resourceInfo :: "TileResourceInfo option"
  m_ownedTextures :: "Texture set"
  m_animatedExtrusionTileHandler :: "AnimatedExtrusionTileHandler option"

text \<open>
  The collaborators a tile reaches through \<^verbatim>\<open>this.dataSource\<close>.  The tiling scheme and
  the projection are consulted once, by the constructor; the map view is read at every
  call, so it is an argument of the operations that read it.
\<close>

record DataSource =
  getGeoBox :: "TileKey \<Rightarrow> GeoBox"
  projectBox :: "GeoBox \<Rightarrow> OrientedBox3"

record MapView =
  frameNumber :: int
  pickHandler_registerTile :: "Tile \<Rightarrow> RoadIntersectionData option"

text \<open>Calls that leave the tile: disposal of graphics resources, the loader, statistics.\<close>

datatype Effect =
    GeometryDisposed BufferGeometry
  | MaterialDisposed nat
  | TextureDisposed Texture
  | ExtrusionHandlerDisposed
  | TileLoaderCanceled
  | TileGeometryLoaderDisposed
  | StatsAddValue string real

text \<open>The constructor; \<^verbatim>\<open>offset\<close> defaults to 0 and \<^verbatim>\<open>localTangentSpace\<close> to false.\<close>

definition newTile :: "DataSource \<Rightarrow> TileKey \<Rightarrow> int \<Rightarrow> bool option \<Rightarrow> Tile" where
  "newTile dataSource key off localTangentSpace =
     \<lparr>objects = [], dependencies = [], tileKey = key, offset = off,
      geoBox = getGeoBox dataSource key,
      boundingBox = projectBox dataSource (getGeoBox dataSource key),
      roadIntersectionData = None, copyrightInfo = None,
      frameNumLastRequested = - 1, frameNumVisible = - 1, frameNumLastVisible = - 1,
      numFramesVisible = 0, visibilityCounter = - 1, preparedTextPaths = None,
      m_disposed = False,
      m_localTangentSpace = (case localTangentSpace of Some b \<Rightarrow> b | None \<Rightarrow> False),
      m_forceHasGeometry = None, m_tileLoader = None, m_decodedTile = None,
      m_tileGeometryLoader = None, m_userTextElements = [], m_textElementGroups = [],
      m_placedTextElements = [], m_textElementsChanged = False, m_visibleArea = 0,
      m_resourceInfo = None, m_ownedTextures = {},
      m_animatedExtrusionTileHandler = None\<rparr>"

subsection \<open>Visibility\<close>

definition isVisible :: "MapView \<Rightarrow> Tile \<Rightarrow> bool" where
  "isVisible mapView t \<longleftrightarrow> frameNumLastRequested t \<ge> frameNumber mapView - 1"

definition set_isVisible :: "MapView \<Rightarrow> bool \<Rightarrow> Tile \<Rightarrow> Tile" where
  "set_isVisible mapView vis t =
     t\<lparr>frameNumLastRequested := (if vis then frameNumber mapView else - 1)\<rparr>"

subsection \<open>The resource ledger\<close>

record AggregatedObjSize =
  agg_heapSize :: nat
  agg_gpuSize :: nat

type_synonym VisitedObjects = "string \<Rightarrow> bool option"

text \<open>
  \<^verbatim>\<open>MapViewUtils.estimateObject3dSize(object, aggregatedObjSize, visitedObjects)\<close> is not
  part of the sources at hand; it updates the two accumulators it is given, and is a
  parameter of the ledger computation.
\<close>

type_synonym Estimator =
  "TileObject \<Rightarrow> AggregatedObjSize \<times> VisitedObjects \<Rightarrow> AggregatedObjSize \<times> VisitedObjects"

text \<open>The loop over \<^verbatim>\<open>this.objects\<close> of \<^verbatim>\<open>computeResourceInfo\<close>.\<close>

fun objectLoop ::
    "Estimator \<Rightarrow> TileObject list \<Rightarrow> nat \<times> AggregatedObjSize \<times> VisitedObjects
       \<Rightarrow> nat \<times> AggregatedObjSize \<times> VisitedObjects" where
  "objectLoop estimateObject3dSize [] acc = acc"
| "objectLoop estimateObject3dSize (ob # obs) (n3d, agg) =
     objectLoop estimateObject3dSize obs
       ((if visible ob then n3d + 1 else n3d), estimateObject3dSize ob agg)"

text \<open>The loop over \<^verbatim>\<open>this.textElementGroups.groups\<close>.\<close>

fun groupLoop :: "GroupedPriorityList \<Rightarrow> nat \<Rightarrow> nat" where
  "groupLoop [] n = n"
| "groupLoop ((k, es) # gs) n = groupLoop gs (n + length es)"

text \<open>The record that \<^verbatim>\<open>computeResourceInfo\<close> stores in \<^verbatim>\<open>m_resourceInfo\<close>.\<close>

definition computedResourceInfo :: "Estimator \<Rightarrow> Tile \<Rightarrow> TileResourceInfo" where
  "computedResourceInfo estimateObject3dSize t =
     (let (n3d, aggregatedObjSize, visitedObjects) =
            objectLoop estimateObject3dSize (objects t)
              (0, \<lparr>agg_heapSize = 0, agg_gpuSize = 0\<rparr>, (\<lambda>uuid. None));
          nText = groupLoop (m_textElementGroups t) 0;
          nUserText = length (m_userTextElements t);
          heap1 = (nText + nUserText) * 312;
          aggHeap = (case m_decodedTile t of
                       None \<Rightarrow> agg_heapSize aggregatedObjSize
                     | Some d \<Rightarrow>
                         (case tileInfo d of
                            None \<Rightarrow> agg_heapSize aggregatedObjSize
                          | Some ti \<Rightarrow> agg_heapSize aggregatedObjSize + numBytes ti));
          heap2 = (case roadIntersectionData t of
                     None \<Rightarrow> heap1
                   | Some r \<Rightarrow> heap1 + getRoadIntersectionDataSize r)
      in \<lparr>heapSize = aggHeap + heap2, gpuSize = agg_gpuSize aggregatedObjSize,
          num3dObjects = n3d, numTextElements = nText, numUserTextElements = nUserText\<rparr>)"

definition computeResourceInfo :: "Estimator \<Rightarrow> Tile \<Rightarrow> Tile" where
  "computeResourceInfo estimateObject3dSize t =
     t\<lparr>m_resourceInfo := Some (computedResourceInfo estimateObject3dSize t)\<rparr>"

definition getResourceInfo :: "Estimator \<Rightarrow> Tile \<Rightarrow> TileResourceInfo \<times> Tile" where
  "getResourceInfo estimateObject3dSize t =
     (case m_resourceInfo t of
        None \<Rightarrow> (computedResourceInfo estimateObject3dSize t,
                  computeResourceInfo estimateObject3dSize t)
      | Some info \<Rightarrow> (info, t))"

definition memoryUsage :: "Estimator \<Rightarrow> Tile \<Rightarrow> nat \<times> Tile" where
  "memoryUsage estimateObject3dSize t =
     (case m_resourceInfo t of
        None \<Rightarrow> (heapSize (computedResourceInfo estimateObject3dSize t),
                  computeResourceInfo estimateObject3dSize t)
      | Some info \<Rightarrow> (heapSize info, t))"

definition invalidateResourceInfo :: "Tile \<Rightarrow> Tile" where
  "invalidateResourceInfo t = t\<lparr>m_resourceInfo := None\<rparr>"

subsection \<open>Textures and text elements\<close>

definition addOwnedTexture :: "Texture \<Rightarrow> Tile \<Rightarrow> Tile" where
  "addOwnedTexture texture t = t\<lparr>m_ownedTextures := insert texture (m_ownedTextures t)\<rparr>"

definition addUserTextElement :: "TextElementRef \<Rightarrow> Tile \<Rightarrow> Tile" where
  "addUserTextElement textElement t =
     t\<lparr>m_userTextElements := m_userTextElements t @ [textElement],
       m_textElementsChanged := True\<rparr>"

definition removeUserTextElement :: "TextElementRef \<Rightarrow> Tile \<Rightarrow> bool \<times> Tile" where
  "removeUserTextElement textElement t =
     (if textElement \<in> set (m_userTextElements t)
      then (True, t\<lparr>m_userTextElements := remove1 textElement (m_userTextElements t),
                    m_textElementsChanged := True\<rparr>)
      else (False, t))"

definition addTextElement :: "TextElementStore \<Rightarrow> TextElementRef \<Rightarrow> Tile \<Rightarrow> Tile" where
  "addTextElement store textElement t =
     t\<lparr>m_textElementGroups := GroupedPriorityList_add store textElement (m_textElementGroups t),
       m_textElementsChanged := True\<rparr>"

definition removeTextElement :: "TextElementStore \<Rightarrow> TextElementRef \<Rightarrow> Tile \<Rightarrow> bool \<times> Tile" where
  "removeTextElement store textElement t =
     (let (removed, groups') =
            GroupedPriorityList_remove store textElement (m_textElementGroups t)
      in if removed
         then (True, t\<lparr>m_textElementGroups := groups', m_textElementsChanged := True\<rparr>)
         else (False, t\<lparr>m_textElementGroups := groups'\<rparr>))"

subsection \<open>Decoded content and road data\<close>

definition prepareTileInfo :: "MapView \<Rightarrow> Tile \<Rightarrow> Tile" where
  "prepareTileInfo mapView t =
     (case m_decodedTile t of
        None \<Rightarrow> t
      | Some d \<Rightarrow>
          if m_disposed t \<or> \<not> isVisible mapView t then t
          else (case tileInfo d of
                  None \<Rightarrow> t
                | Some ti \<Rightarrow> t\<lparr>roadIntersectionData := pickHandler_registerTile mapView t\<rparr>))"

text \<open>
  \<^verbatim>\<open>PerformanceStatistics.instance.enabled\<close> is the first argument; the value handed to
  the statistics is an effect.
\<close>

definition setDecodedTile :: "bool \<Rightarrow> DecodedTile \<Rightarrow> Tile \<Rightarrow> Effect list \<times> Tile" where
  "setDecodedTile statsEnabled decodedTile t =
     (let t1 = t\<lparr>m_decodedTile := Some decodedTile\<rparr>;
          t2 = (case dt_boundingBox decodedTile of
                  Some b \<Rightarrow> t1\<lparr>boundingBox := b\<rparr>
                | None \<Rightarrow> t1);
          t3 = invalidateResourceInfo t2;
          effects = (case decodeTime decodedTile of
                       Some dtime \<Rightarrow>
                         if statsEnabled then [StatsAddValue ''decode.decodingTime'' dtime]
                         else []
                     | None \<Rightarrow> [])
      in (effects, t3))"

definition removeDecodedTile :: "Tile \<Rightarrow> Tile" where
  "removeDecodedTile t = invalidateResourceInfo (t\<lparr>m_decodedTile := None\<rparr>)"

subsection \<open>Geometry state\<close>

definition hasGeometry :: "Tile \<Rightarrow> bool" where
  "hasGeometry t =
     (case m_forceHasGeometry t of
        None \<Rightarrow> length (objects t) \<noteq> 0
      | Some forced \<Rightarrow> forced)"

definition basicGeometryLoaded :: "Tile \<Rightarrow> bool" where
  "basicGeometryLoaded t =
     (case m_tileGeometryLoader t of
        None \<Rightarrow> hasGeometry t
      | Some gl \<Rightarrow> gl_basicGeometryLoaded gl \<or> gl_isFinished gl)"

definition allGeometryLoaded :: "Tile \<Rightarrow> bool" where
  "allGeometryLoaded t =
     (case m_tileGeometryLoader t of
        None \<Rightarrow> hasGeometry t
      | Some gl \<Rightarrow> gl_allGeometryLoaded gl \<or> gl_isFinished gl)"

definition forceHasGeometry :: "bool \<Rightarrow> bool \<Rightarrow> Tile \<Rightarrow> Effect list \<times> Tile" where
  "forceHasGeometry statsEnabled v t =
     (let (effects, t1) = (if v then setDecodedTile statsEnabled defaultEmptyDecodedTile t
                           else ([], t))
      in (effects, t1\<lparr>m_forceHasGeometry := Some v\<rparr>))"

subsection \<open>Disposal\<close>

definition shouldDisposeObjectGeometry :: "Tile \<Rightarrow> TileObject \<Rightarrow> bool" where
  "shouldDisposeObjectGeometry t ob = True"

definition shouldDisposeObjectMaterial :: "Tile \<Rightarrow> TileObject \<Rightarrow> bool" where
  "shouldDisposeObjectMaterial t ob = True"

definition shouldDisposeTexture :: "Tile \<Rightarrow> Texture \<Rightarrow> bool" where
  "shouldDisposeTexture t texture \<longleftrightarrow> texture \<in> m_ownedTextures t"

text \<open>The loop of \<^verbatim>\<open>disposeMaterial\<close> over the own properties of a material.\<close>

fun disposeProperties :: "Tile \<Rightarrow> (string \<times> MaterialProperty) list \<Rightarrow> Effect list" where
  "disposeProperties t [] = []"
| "disposeProperties t ((name, TextureProperty texture) # ps) =
     (if shouldDisposeTexture t texture then [TextureDisposed texture] else [])
       @ disposeProperties t ps"
| "disposeProperties t ((name, other) # ps) = disposeProperties t ps"

definition disposeMaterial :: "Tile \<Rightarrow> Material \<Rightarrow> Effect list" where
  "disposeMaterial t mat = disposeProperties t (properties mat) @ [MaterialDisposed (materialId mat)]"

fun disposeMaterialArray :: "Tile \<Rightarrow> Material option list \<Rightarrow> Effect list" where
  "disposeMaterialArray t [] = []"
| "disposeMaterialArray t (None # ms) = disposeMaterialArray t ms"
| "disposeMaterialArray t (Some mat # ms) = disposeMaterial t mat @ disposeMaterialArray t ms"

definition disposeObject :: "Tile \<Rightarrow> TileObject \<Rightarrow> Effect list" where
  "disposeObject t ob =
     (case geometry ob of
        Some g \<Rightarrow> if shouldDisposeObjectGeometry t ob then [GeometryDisposed g] else []
      | None \<Rightarrow> [])
     @ (case material ob of
          Some slot \<Rightarrow>
            if shouldDisposeObjectMaterial t ob
            then (case slot of
                    MaterialArray ms \<Rightarrow> disposeMaterialArray t ms
                  | SingleMaterial mat \<Rightarrow> disposeMaterial t mat)
            else []
        | None \<Rightarrow> [])"

text \<open>\<^verbatim>\<open>Object3D.traverse\<close>: the object itself, then every child, recursively.\<close>

fun traverse :: "Object3D \<Rightarrow> Object3D list" where
  "traverse (Object3D v g m cs) = Object3D v g m cs # concat (map traverse cs)"

fun disposeAll :: "Tile \<Rightarrow> TileObject list \<Rightarrow> Effect list" where
  "disposeAll t [] = []"
| "disposeAll t (ob # obs) = disposeObject t ob @ disposeAll t obs"

text \<open>The loop of \<^verbatim>\<open>clear\<close> over the root objects.\<close>

fun disposeRoots :: "Tile \<Rightarrow> TileObject list \<Rightarrow> Effect list" where
  "disposeRoots t [] = []"
| "disposeRoots t (rootObject # roots) =
     disposeAll t (traverse rootObject) @ disposeObject t rootObject @ disposeRoots t roots"

definition clear :: "Tile \<Rightarrow> Effect list \<times> Tile" where
  "clear t =
     (let effects1 = disposeRoots t (objects t);
          t1 = t\<lparr>objects := []\<rparr>;
          t2 = (case preparedTextPaths t1 of
                  Some paths \<Rightarrow> t1\<lparr>preparedTextPaths := Some []\<rparr>
                | None \<Rightarrow> t1);
          effects2 = (case m_animatedExtrusionTileHandler t2 of
                        Some h \<Rightarrow> [ExtrusionHandlerDisposed]
                      | None \<Rightarrow> []);
          t3 = t2\<lparr>m_placedTextElements := GroupedPriorityList_clear (m_placedTextElements t2)\<rparr>;
          t4 = t3\<lparr>m_textElementGroups := GroupedPriorityList_clear (m_textElementGroups t3)\<rparr>;
          t5 = t4\<lparr>m_userTextElements := []\<rparr>
      in (effects1 @ effects2, invalidateResourceInfo t5))"

definition dispose :: "Tile \<Rightarrow> Effect list \<times> Tile" where
  "dispose t =
     (if m_disposed t then ([], t)
      else
        (let (effects1, t1) = (case m_tileLoader t of
                                 Some l \<Rightarrow> ([TileLoaderCanceled], t\<lparr>m_tileLoader := None\<rparr>)
                               | None \<Rightarrow> ([], t));
             (effects2, t2) = (case m_tileGeometryLoader t1 of
                                 Some gl \<Rightarrow> ([TileGeometryLoaderDisposed],
                                             t1\<lparr>m_tileGeometryLoader := None\<rparr>)
                               | None \<Rightarrow> ([], t1));
             (effects3, t3) = clear t2
         in (effects1 @ effects2 @ effects3,
             t3\<lparr>m_userTextElements := [], m_disposed := True, frameNumLastRequested := 0\<rparr>)))"

subsection \<open>Notions used in the statements and proofs\<close>

text \<open>
  The two optional contributions to the heap size of the ledger.
\<close>

definition tileInfoBytes :: "Tile \<Rightarrow> nat" where
  "tileInfoBytes t =
     (case m_decodedTile t of
        None \<Rightarrow> 0
      | Some d \<Rightarrow> (case tileInfo d of None \<Rightarrow> 0 | Some ti \<Rightarrow> numBytes ti))"

definition roadDataBytes :: "Tile \<Rightarrow> nat" where
  "roadDataBytes t =
     (case roadIntersectionData t of None \<Rightarrow> 0 | Some r \<Rightarrow> getRoadIntersectionDataSize r)"

text \<open>
  The first part of \<^verbatim>\<open>dispose\<close>: the tile as
  \<^verbatim>\<open>clear\<close> receives it, and the calls made on the two loaders.
\<close>

definition detachLoaders :: "Tile \<Rightarrow> Tile" where
  "detachLoaders t =
     (let t1 = (case m_tileLoader t of Some l \<Rightarrow> t\<lparr>m_tileLoader := None\<rparr> | None \<Rightarrow> t)
      in (case m_tileGeometryLoader t1 of
            Some gl \<Rightarrow> t1\<lparr>m_tileGeometryLoader := None\<rparr>
          | None \<Rightarrow> t1))"

definition loaderEffects :: "Tile \<Rightarrow> Effect list" where
  "loaderEffects t =
     (case m_tileLoader t of Some l \<Rightarrow> [TileLoaderCanceled] | None \<Rightarrow> [])
     @ (case m_tileGeometryLoader t of Some gl \<Rightarrow> [TileGeometryLoaderDisposed] | None \<Rightarrow> [])"

text \<open>
  Calls on the data-driven labels of a tile, each with the store of text elements at the
  time of the call, and their effect on the tile; \<open>heldOnlyAt p e\<close> says that
  the element \<open>e\<close> is in no bucket but that of the key \<open>p\<close>.
\<close>

datatype TextOp =
    AddTextElement TextElementRef
  | RemoveTextElement TextElementRef
  | SetTextElementsChanged bool

fun applyTextOp :: "TextElementStore \<times> TextOp \<Rightarrow> Tile \<Rightarrow> Tile" where
  "applyTextOp (store, AddTextElement x) t = addTextElement store x t"
| "applyTextOp (store, RemoveTextElement x) t = snd (removeTextElement store x t)"
| "applyTextOp (store, SetTextElementsChanged c) t = t\<lparr>m_textElementsChanged := c\<rparr>"

fun applyTextOps :: "(TextElementStore \<times> TextOp) list \<Rightarrow> Tile \<Rightarrow> Tile" where
  "applyTextOps [] t = t"
| "applyTextOps (op # ops) t = applyTextOps ops (applyTextOp op t)"

definition heldOnlyAt :: "real \<Rightarrow> TextElementRef \<Rightarrow> GroupedPriorityList \<Rightarrow> bool" where
  "heldOnlyAt p e gl \<longleftrightarrow> (\<forall>(k, es) \<in> set gl. e \<in> set es \<longrightarrow> k = p)"

text \<open>
  The textures found among the own properties of the materials of the objects that
  \<^verbatim>\<open>clear\<close> visits.
\<close>

fun texturesOfProperties :: "(string \<times> MaterialProperty) list \<Rightarrow> Texture list" where
  "texturesOfProperties [] = []"
| "texturesOfProperties ((name, TextureProperty texture) # ps) = texture # texturesOfProperties ps"
| "texturesOfProperties ((name, other) # ps) = texturesOfProperties ps"

fun definedMaterials :: "Material option list \<Rightarrow> Material list" where
  "definedMaterials [] = []"
| "definedMaterials (None # ms) = definedMaterials ms"
| "definedMaterials (Some mat # ms) = mat # definedMaterials ms"

definition materialsOfObject :: "Object3D \<Rightarrow> Material list" where
  "materialsOfObject ob =
     (case material ob of
        None \<Rightarrow> []
      | Some (SingleMaterial mat) \<Rightarrow> [mat]
      | Some (MaterialArray ms) \<Rightarrow> definedMaterials ms)"

definition texturesOfObject :: "Object3D \<Rightarrow> Texture list" where
  "texturesOfObject ob =
     concat (map (\<lambda>mat. texturesOfProperties (properties mat)) (materialsOfObject ob))"

definition texturesOfObjects :: "TileObject list \<Rightarrow> Texture set" where
  "texturesOfObjects roots =
     set (concat (map (\<lambda>rootObject. concat (map texturesOfObject (traverse rootObject))) roots))"

subsection \<open>Example inputs\<close>

text \<open>
  A data source, a tile key and the tile constructed from them; a map view at a given
  frame whose pick handler returns a road record with one entry.
\<close>

definition exampleDataSource :: DataSource where
  "exampleDataSource =
     \<lparr>getGeoBox = (\<lambda>k. \<lparr>south = 0, west = 0, north = 1, east = 1\<rparr>),
      projectBox = (\<lambda>g. \<lparr>position = \<lparr>vx = west g, vy = south g, vz = 0\<rparr>,
                           xAxis = \<lparr>vx = 1, vy = 0, vz = 0\<rparr>,
                           yAxis = \<lparr>vx = 0, vy = 1, vz = 0\<rparr>,
                           zAxis = \<lparr>vx = 0, vy = 0, vz = 1\<rparr>,
                           extents = \<lparr>vx = east g, vy = north g, vz = 0\<rparr>\<rparr>)\<rparr>"

definition exampleKey :: TileKey where
  "exampleKey = \<lparr>row = 0, column = 0, level = 1\<rparr>"

definition exampleTile :: Tile where
  "exampleTile = newTile exampleDataSource exampleKey 0 None"

definition exampleRoadData :: RoadIntersectionData where
  "exampleRoadData =
     \<lparr>ids = Some [Some 7], techniqueIndex = [0], starts = [0], widths = [2],
      positions = [0, 0, 1, 1], rid_techniques = [''line''], objInfos = None\<rparr>"

definition exampleMapView :: "int \<Rightarrow> MapView" where
  "exampleMapView n =
     \<lparr>frameNumber = n, pickHandler_registerTile = (\<lambda>t. Some exampleRoadData)\<rparr>"

text \<open>
  One texture shared by two tiles that hold the same mesh; only \<open>tileA\<close>
  registers it.
\<close>

definition sharedTexture :: Texture where
  "sharedTexture = Texture 7"

definition exampleMaterial :: Material where
  "exampleMaterial =
     \<lparr>materialId = 1,
      properties = [(''color'', OtherProperty), (''map'', TextureProperty sharedTexture)]\<rparr>"

definition exampleMesh :: TileObject where
  "exampleMesh =
     Object3D True (Some (BufferGeometry 1)) (Some (SingleMaterial exampleMaterial))
       [Object3D False None (Some (MaterialArray [None, Some exampleMaterial])) []]"

definition tileA :: Tile where
  "tileA = addOwnedTexture sharedTexture (exampleTile\<lparr>objects := [exampleMesh]\<rparr>)"

definition tileB :: Tile where
  "tileB = exampleTile\<lparr>objects := [exampleMesh]\<rparr>"

text \<open>
  A store of text elements, and the same store after the priority of element 3 has
  changed.
\<close>

definition exampleStore :: TextElementStore where
  "exampleStore = (\<lambda>r. \<lparr>priority = 1, label = ''street''\<rparr>)"

definition mutatedStore :: TextElementStore where
  "mutatedStore = exampleStore (3 := \<lparr>priority = 2, label = ''street''\<rparr>)"

text \<open>
  The element 3 added at priority 2, changed to priority 1 and added again; its priority
  is then changed back to 2.
\<close>

definition twiceAddedTile :: Tile where
  "twiceAddedTile = addTextElement exampleStore 3 (addTextElement mutatedStore 3 exampleTile)"

text \<open>
  Decoded content that carries a bounding box of its own, and the tile refined by it.
\<close>

definition tightBox :: OrientedBox3 where
  "tightBox =
     \<lparr>position = \<lparr>vx = 0, vy = 0, vz = 5\<rparr>,
      xAxis = \<lparr>vx = 1, vy = 0, vz = 0\<rparr>,
      yAxis = \<lparr>vx = 0, vy = 1, vz = 0\<rparr>,
      zAxis = \<lparr>vx = 0, vy = 0, vz = 1\<rparr>,
      extents = \<lparr>vx = 1, vy = 1, vz = 5\<rparr>\<rparr>"

definition boxedDecodedTile :: DecodedTile where
  "boxedDecodedTile =
     \<lparr>techniques = [''extruded-polygon''], geometries = [0], dt_boundingBox = Some tightBox,
      tileInfo = None, decodeTime = None\<rparr>"

definition refinedTile :: Tile where
  "refinedTile = snd (setDecodedTile False boxedDecodedTile exampleTile)"

text \<open>
  Decoded content with a tile info of 64 bytes, an estimator, and tiles built by the calls
  of a frame: content attached and marked visible (\<open>loadedTile\<close>), road data
  prepared (\<open>roadTile\<close>), the ledger read before road data is prepared
  (\<open>cachedTile\<close>, \<open>staleTile\<close>), and a tile with a mesh and two
  labels.
\<close>

definition exampleDecodedTile :: DecodedTile where
  "exampleDecodedTile =
     \<lparr>techniques = [''line''], geometries = [0], dt_boundingBox = None,
      tileInfo = Some \<lparr>numBytes = 64\<rparr>, decodeTime = None\<rparr>"

definition exampleEstimator :: Estimator where
  "exampleEstimator =
     (\<lambda>ob (agg, visited).
        (\<lparr>agg_heapSize = agg_heapSize agg + 200, agg_gpuSize = agg_gpuSize agg + 64\<rparr>, visited))"

definition loadedTile :: Tile where
  "loadedTile =
     set_isVisible (exampleMapView 1) True (snd (setDecodedTile False exampleDecodedTile exampleTile))"

definition roadTile :: Tile where
  "roadTile = prepareTileInfo (exampleMapView 1) loadedTile"

definition cachedTile :: Tile where
  "cachedTile = snd (getResourceInfo exampleEstimator loadedTile)"

definition staleTile :: Tile where
  "staleTile = prepareTileInfo (exampleMapView 1) cachedTile"

definition labelledTile :: Tile where
  "labelledTile =
     addUserTextElement 4 (addTextElement exampleStore 3 (exampleTile\<lparr>objects := [exampleMesh]\<rparr>))"

section \<open>Properties\<close>

subsection \<open>Visibility\<close>

text \<open>
  Claim C1.  A tile whose \<^verbatim>\<open>frameNumLastRequested\<close> is the frame number \<open>f \<ge> 0\<close> is
  visible while the map view is at frame \<open>f\<close> or \<open>f + 1\<close>, and is not visible at any
  frame from \<open>f + 2\<close> on.  The tile is the same at every query: it is not requested
  again in between.
\<close>

theorem isVisible_grace_period:
  assumes "0 \<le> f" and "frameNumLastRequested t = f"
  shows "isVisible (mapView\<lparr>frameNumber := f\<rparr>) t
       \<and> isVisible (mapView\<lparr>frameNumber := f + 1\<rparr>) t
       \<and> (\<forall>n. f + 2 \<le> n \<longrightarrow> \<not> isVisible (mapView\<lparr>frameNumber := n\<rparr>) t)"
  using assms by (simp add: isVisible_def)

theorem isVisible_grace_period_witness:
  "(0::int) \<le> 5
   \<and> frameNumLastRequested (set_isVisible (exampleMapView 5) True exampleTile) = 5
   \<and> isVisible (exampleMapView 5) (set_isVisible (exampleMapView 5) True exampleTile)
   \<and> isVisible (exampleMapView 6) (set_isVisible (exampleMapView 5) True exampleTile)
   \<and> \<not> isVisible (exampleMapView 7) (set_isVisible (exampleMapView 5) True exampleTile)
   \<and> \<not> isVisible (exampleMapView 40) (set_isVisible (exampleMapView 5) True exampleTile)"
proof -
  let ?t = "set_isVisible (exampleMapView 5) True exampleTile"
  have stamp: "frameNumLastRequested ?t = 5"
    by (simp add: set_isVisible_def exampleMapView_def)
  have upd: "\<And>n. (exampleMapView 0)\<lparr>frameNumber := n\<rparr> = exampleMapView n"
    by (simp add: exampleMapView_def)
  from isVisible_grace_period [of 5 ?t "exampleMapView 0"] stamp
  show ?thesis by (simp add: upd)
qed

subsection \<open>State after clear and dispose\<close>

lemma clear_fields:
  "objects (snd (clear t)) = []"
  "m_userTextElements (snd (clear t)) = []"
  "m_textElementGroups (snd (clear t)) = []"
  "m_placedTextElements (snd (clear t)) = []"
  "m_resourceInfo (snd (clear t)) = None"
  "m_disposed (snd (clear t)) = m_disposed t"
  "roadIntersectionData (snd (clear t)) = roadIntersectionData t"
  "m_decodedTile (snd (clear t)) = m_decodedTile t"
  "m_ownedTextures (snd (clear t)) = m_ownedTextures t"
  "frameNumLastRequested (snd (clear t)) = frameNumLastRequested t"
  "m_tileLoader (snd (clear t)) = m_tileLoader t"
  "m_tileGeometryLoader (snd (clear t)) = m_tileGeometryLoader t"
  by (simp_all add: clear_def Let_def invalidateResourceInfo_def GroupedPriorityList_clear_def
      split: option.splits)

lemma dispose_disposed: "m_disposed (snd (dispose t))"
  by (simp add: dispose_def Let_def clear_fields split: option.splits prod.splits)

lemma dispose_unfold:
  "\<not> m_disposed t \<Longrightarrow>
     dispose t =
       (loaderEffects t @ fst (clear (detachLoaders t)),
        (snd (clear (detachLoaders t)))
          \<lparr>m_userTextElements := [], m_disposed := True, frameNumLastRequested := 0\<rparr>)"
  by (simp add: dispose_def detachLoaders_def loaderEffects_def Let_def
      split: option.splits prod.splits)

lemma detachLoaders_fields:
  "objects (detachLoaders t) = objects t"
  "m_ownedTextures (detachLoaders t) = m_ownedTextures t"
  "m_disposed (detachLoaders t) = m_disposed t"
  "roadIntersectionData (detachLoaders t) = roadIntersectionData t"
  "m_decodedTile (detachLoaders t) = m_decodedTile t"
  "m_tileLoader (detachLoaders t) = None"
  "m_tileGeometryLoader (detachLoaders t) = None"
  by (simp_all add: detachLoaders_def Let_def split: option.splits)

lemma dispose_fields:
  assumes "\<not> m_disposed t"
  shows "m_disposed (snd (dispose t))"
    and "objects (snd (dispose t)) = []"
    and "m_userTextElements (snd (dispose t)) = []"
    and "m_textElementGroups (snd (dispose t)) = []"
    and "m_placedTextElements (snd (dispose t)) = []"
    and "m_resourceInfo (snd (dispose t)) = None"
    and "frameNumLastRequested (snd (dispose t)) = 0"
    and "roadIntersectionData (snd (dispose t)) = roadIntersectionData t"
    and "m_decodedTile (snd (dispose t)) = m_decodedTile t"
    and "m_tileLoader (snd (dispose t)) = None"
    and "m_tileGeometryLoader (snd (dispose t)) = None"
  using assms
  by (simp_all add: dispose_unfold clear_fields detachLoaders_fields)

text \<open>
  Claim C3.  Disposing twice is disposing once: the second call returns the tile that
  the first call produced, every field of it unchanged, and makes no call on any
  collaborator.
\<close>

theorem dispose_idempotent:
  "dispose (snd (dispose t)) = ([], snd (dispose t))"
proof -
  have "m_disposed (snd (dispose t))" by (rule dispose_disposed)
  then show ?thesis by (simp add: dispose_def [of "snd (dispose t)"])
qed

subsection \<open>The resource ledger\<close>

lemma objectLoop_count:
  "fst (objectLoop est obs (n, agg)) = n + length (filter visible obs)"
  by (induction obs arbitrary: n agg) simp_all

lemma objectLoop_sizes:
  "snd (objectLoop est obs (n, agg)) = fold est obs agg"
  by (induction obs arbitrary: n agg) simp_all

lemma visible_split:
  "length (filter visible obs) + length (filter (\<lambda>ob. \<not> visible ob) obs) = length obs"
  by (induction obs) simp_all

lemma computedResourceInfo_fields:
  "num3dObjects (computedResourceInfo est t) = length (filter visible (objects t))"
  "gpuSize (computedResourceInfo est t) =
     agg_gpuSize (fst (fold est (objects t) (\<lparr>agg_heapSize = 0, agg_gpuSize = 0\<rparr>, (\<lambda>uuid. None))))"
  "numTextElements (computedResourceInfo est t) = groupLoop (m_textElementGroups t) 0"
  "numUserTextElements (computedResourceInfo est t) = length (m_userTextElements t)"
  "heapSize (computedResourceInfo est t) =
     agg_heapSize (fst (fold est (objects t) (\<lparr>agg_heapSize = 0, agg_gpuSize = 0\<rparr>, (\<lambda>uuid. None))))
       + tileInfoBytes t
       + (groupLoop (m_textElementGroups t) 0 + length (m_userTextElements t)) * 312
       + roadDataBytes t"
proof -
  let ?init = "(\<lparr>agg_heapSize = 0, agg_gpuSize = 0\<rparr>, (\<lambda>uuid. None)) :: AggregatedObjSize \<times> VisitedObjects"
  obtain n agg vis where r: "objectLoop est (objects t) (0, ?init) = (n, agg, vis)"
    by (metis prod_cases3)
  have n: "n = length (filter visible (objects t))"
    using objectLoop_count [of est "objects t" 0 ?init] r by simp
  have a: "fold est (objects t) ?init = (agg, vis)"
    using objectLoop_sizes [of est "objects t" 0 ?init] r by simp
  show "num3dObjects (computedResourceInfo est t) = length (filter visible (objects t))"
    by (simp add: computedResourceInfo_def Let_def r n)
  show "gpuSize (computedResourceInfo est t) = agg_gpuSize (fst (fold est (objects t) ?init))"
    by (simp add: computedResourceInfo_def Let_def r a)
  show "numTextElements (computedResourceInfo est t) = groupLoop (m_textElementGroups t) 0"
    by (simp add: computedResourceInfo_def Let_def r)
  show "numUserTextElements (computedResourceInfo est t) = length (m_userTextElements t)"
    by (simp add: computedResourceInfo_def Let_def r)
  show "heapSize (computedResourceInfo est t) =
     agg_heapSize (fst (fold est (objects t) ?init)) + tileInfoBytes t
       + (groupLoop (m_textElementGroups t) 0 + length (m_userTextElements t)) * 312
       + roadDataBytes t"
    by (simp add: computedResourceInfo_def Let_def r a tileInfoBytes_def roadDataBytes_def
        split: option.splits)
qed

lemma getResourceInfo_stale:
  "m_resourceInfo t = None \<Longrightarrow> fst (getResourceInfo est t) = computedResourceInfo est t"
  by (simp add: getResourceInfo_def)

lemma TileResourceInfo_eqI:
  "heapSize a = h \<Longrightarrow> gpuSize a = g \<Longrightarrow> num3dObjects a = n \<Longrightarrow> numTextElements a = k
     \<Longrightarrow> numUserTextElements a = u
     \<Longrightarrow> (a :: TileResourceInfo) =
           \<lparr>heapSize = h, gpuSize = g, num3dObjects = n, numTextElements = k,
            numUserTextElements = u\<rparr>"
  by simp

lemma exampleRoadData_size: "getRoadIntersectionDataSize exampleRoadData = 240"
  by (simp add: getRoadIntersectionDataSize_def exampleRoadData_def Let_def
      MINIMUM_OBJECT_SIZE_ESTIMATION_def MINIMUM_SMALL_OBJECT_SIZE_ESTIMATION_def)

text \<open>
  Claim C8.  The size estimate of a road intersection record with \<open>n\<close> entries in
  \<^verbatim>\<open>techniqueIndex\<close> is \<open>100 + n * (8 + 8 + 8 + 8 + 100)\<close> bytes, plus \<open>n * 8\<close> when
  \<^verbatim>\<open>ids\<close> is present and \<open>n * 16\<close> when \<^verbatim>\<open>objInfos\<close> is present; the heap size of
  the ledger grows by exactly this amount when the tile holds the record.
\<close>

theorem getRoadIntersectionDataSize_formula:
  "getRoadIntersectionDataSize r =
     100 + length (techniqueIndex r) * (8 + 8 + 8 + 8 + 100)
       + (if ids r \<noteq> None then length (techniqueIndex r) * 8 else 0)
       + (if objInfos r \<noteq> None then length (techniqueIndex r) * 16 else 0)
   \<and> heapSize (computedResourceInfo est (t\<lparr>roadIntersectionData := Some r\<rparr>)) =
       heapSize (computedResourceInfo est (t\<lparr>roadIntersectionData := None\<rparr>))
         + getRoadIntersectionDataSize r"
  by (simp add: getRoadIntersectionDataSize_def Let_def MINIMUM_OBJECT_SIZE_ESTIMATION_def
      MINIMUM_SMALL_OBJECT_SIZE_ESTIMATION_def computedResourceInfo_def
      split: prod.splits option.splits)

text \<open>
  Claim C10.  The recomputed ledger counts in \<^verbatim>\<open>num3dObjects\<close> the owned objects
  whose \<^verbatim>\<open>visible\<close> flag is true: with \<open>k\<close> objects of which \<open>m\<close> are not visible it
  reports \<open>k - m\<close>.  The size estimator is applied to every object, visible or not.
\<close>

theorem num3dObjects_counts_visible:
  "num3dObjects (fst (getResourceInfo est (invalidateResourceInfo t))) =
     length (objects t) - length (filter (\<lambda>ob. \<not> visible ob) (objects t))
   \<and> num3dObjects (fst (getResourceInfo est (invalidateResourceInfo t)))
       + length (filter (\<lambda>ob. \<not> visible ob) (objects t)) = length (objects t)
   \<and> gpuSize (fst (getResourceInfo est (invalidateResourceInfo t))) =
       agg_gpuSize (fst (fold est (objects t)
         (\<lparr>agg_heapSize = 0, agg_gpuSize = 0\<rparr>, (\<lambda>uuid. None))))"
proof -
  have info: "fst (getResourceInfo est (invalidateResourceInfo t)) =
      computedResourceInfo est (invalidateResourceInfo t)"
    by (simp add: getResourceInfo_def invalidateResourceInfo_def)
  have obs: "objects (invalidateResourceInfo t) = objects t"
    by (simp add: invalidateResourceInfo_def)
  from visible_split [of "objects t"] show ?thesis
    by (simp add: info computedResourceInfo_fields obs)
qed

text \<open>
  Claim C2, as the code has it.  After \<^verbatim>\<open>dispose\<close> on a tile that was not disposed,
  the tile is disposed, its object sequence, its user labels and both grouped label
  collections are empty, and the ledger reports zero for the GPU size and the three
  counts.  The road intersection record and the decoded content are left as they were,
  and the heap size is what they contribute; it is zero when the tile holds neither.
\<close>

theorem dispose_releases_owned_content:
  assumes "\<not> m_disposed t"
  shows "m_disposed (snd (dispose t))
       \<and> objects (snd (dispose t)) = []
       \<and> m_userTextElements (snd (dispose t)) = []
       \<and> m_textElementGroups (snd (dispose t)) = []
       \<and> m_placedTextElements (snd (dispose t)) = []
       \<and> roadIntersectionData (snd (dispose t)) = roadIntersectionData t
       \<and> m_decodedTile (snd (dispose t)) = m_decodedTile t
       \<and> fst (getResourceInfo est (snd (dispose t))) =
           \<lparr>heapSize = tileInfoBytes t + roadDataBytes t, gpuSize = 0, num3dObjects = 0,
            numTextElements = 0, numUserTextElements = 0\<rparr>
       \<and> (roadIntersectionData t = None \<and> m_decodedTile t = None \<longrightarrow>
            fst (getResourceInfo est (snd (dispose t))) =
              \<lparr>heapSize = 0, gpuSize = 0, num3dObjects = 0, numTextElements = 0,
               numUserTextElements = 0\<rparr>)"
proof -
  note f = dispose_fields [OF assms]
  have info: "fst (getResourceInfo est (snd (dispose t))) =
      computedResourceInfo est (snd (dispose t))"
    by (rule getResourceInfo_stale) (rule f)
  have bytes: "tileInfoBytes (snd (dispose t)) = tileInfoBytes t"
      "roadDataBytes (snd (dispose t)) = roadDataBytes t"
    by (simp_all add: tileInfoBytes_def roadDataBytes_def f)
  have ledger: "computedResourceInfo est (snd (dispose t)) =
      \<lparr>heapSize = tileInfoBytes t + roadDataBytes t, gpuSize = 0, num3dObjects = 0,
       numTextElements = 0, numUserTextElements = 0\<rparr>"
    by (rule TileResourceInfo_eqI) (simp_all add: computedResourceInfo_fields f bytes)
  have zero: "roadIntersectionData t = None \<and> m_decodedTile t = None \<longrightarrow>
      tileInfoBytes t + roadDataBytes t = 0"
    by (simp add: tileInfoBytes_def roadDataBytes_def)
  from f info ledger zero show ?thesis by simp
qed

lemma labelledTile_fields:
  "\<not> m_disposed labelledTile"
  "objects labelledTile = [exampleMesh]"
  "m_userTextElements labelledTile = [4]"
  "m_textElementGroups labelledTile = [(1, [3])]"
  "roadIntersectionData labelledTile = None"
  "m_decodedTile labelledTile = None"
  by (simp_all add: labelledTile_def addUserTextElement_def addTextElement_def
      GroupedPriorityList_add_def exampleStore_def exampleTile_def newTile_def)

theorem dispose_releases_owned_content_witness:
  "\<not> m_disposed labelledTile
   \<and> objects labelledTile = [exampleMesh]
   \<and> m_userTextElements labelledTile = [4]
   \<and> m_textElementGroups labelledTile = [(1, [3])]
   \<and> roadIntersectionData labelledTile = None
   \<and> m_decodedTile labelledTile = None
   \<and> m_disposed (snd (dispose labelledTile))
   \<and> objects (snd (dispose labelledTile)) = []
   \<and> m_userTextElements (snd (dispose labelledTile)) = []
   \<and> m_textElementGroups (snd (dispose labelledTile)) = []
   \<and> fst (getResourceInfo exampleEstimator (snd (dispose labelledTile))) =
        \<lparr>heapSize = 0, gpuSize = 0, num3dObjects = 0, numTextElements = 0,
         numUserTextElements = 0\<rparr>"
  using dispose_releases_owned_content [of labelledTile exampleEstimator]
  by (simp add: labelledTile_fields tileInfoBytes_def roadDataBytes_def)

lemma loadedTile_fields:
  "m_decodedTile loadedTile = Some exampleDecodedTile"
  "m_disposed loadedTile = False"
  "frameNumLastRequested loadedTile = 1"
  "roadIntersectionData loadedTile = None"
  "m_resourceInfo loadedTile = None"
  "objects loadedTile = []"
  "m_textElementGroups loadedTile = []"
  "m_userTextElements loadedTile = []"
  by (simp_all add: loadedTile_def set_isVisible_def setDecodedTile_def Let_def
      invalidateResourceInfo_def exampleDecodedTile_def exampleTile_def newTile_def
      exampleMapView_def)

lemma roadTile_fields:
  "m_decodedTile roadTile = Some exampleDecodedTile"
  "m_disposed roadTile = False"
  "roadIntersectionData roadTile = Some exampleRoadData"
  by (simp_all add: roadTile_def prepareTileInfo_def loadedTile_fields isVisible_def
      exampleMapView_def exampleDecodedTile_def)

text \<open>
  Claim C2 as stated fails: \<^verbatim>\<open>dispose\<close> does not reset the road intersection record.
  A visible tile with decoded content whose road data was prepared keeps the record after
  disposal, and its ledger reports a heap size of 304 bytes.
\<close>

theorem dispose_counterexample:
  "\<not> m_disposed roadTile
   \<and> m_disposed (snd (dispose roadTile))
   \<and> roadIntersectionData (snd (dispose roadTile)) = Some exampleRoadData
   \<and> heapSize (fst (getResourceInfo exampleEstimator (snd (dispose roadTile)))) = 304"
proof -
  have nd: "\<not> m_disposed roadTile" by (simp add: roadTile_fields)
  have info: "fst (getResourceInfo exampleEstimator (snd (dispose roadTile))) =
      computedResourceInfo exampleEstimator (snd (dispose roadTile))"
    by (rule getResourceInfo_stale) (rule dispose_fields [OF nd])
  have "heapSize (computedResourceInfo exampleEstimator (snd (dispose roadTile))) = 304"
    by (simp add: computedResourceInfo_fields dispose_fields [OF nd] tileInfoBytes_def
        roadDataBytes_def roadTile_fields exampleDecodedTile_def exampleRoadData_size)
  with nd info show ?thesis
    by (simp add: dispose_fields [OF nd] roadTile_fields)
qed

text \<open>
  \<^verbatim>\<open>setDecodedTile\<close>, \<^verbatim>\<open>removeDecodedTile\<close>, \<^verbatim>\<open>clear\<close> and
  \<^verbatim>\<open>invalidateResourceInfo\<close> leave the ledger stale, so the next read recomputes it.
\<close>

lemma mutators_invalidate_ledger:
  "fst (getResourceInfo est (snd (setDecodedTile statsEnabled d t))) =
     computedResourceInfo est (snd (setDecodedTile statsEnabled d t))"
  "fst (getResourceInfo est (removeDecodedTile t)) = computedResourceInfo est (removeDecodedTile t)"
  "fst (getResourceInfo est (snd (clear t))) = computedResourceInfo est (snd (clear t))"
  "fst (getResourceInfo est (invalidateResourceInfo t)) =
     computedResourceInfo est (invalidateResourceInfo t)"
  by (simp_all add: getResourceInfo_def setDecodedTile_def removeDecodedTile_def
      invalidateResourceInfo_def clear_fields Let_def split: option.splits)

lemma cachedTile_fields:
  "m_decodedTile cachedTile = Some exampleDecodedTile"
  "m_disposed cachedTile = False"
  "frameNumLastRequested cachedTile = 1"
  "roadIntersectionData cachedTile = None"
  "m_resourceInfo cachedTile = Some (computedResourceInfo exampleEstimator loadedTile)"
  by (simp_all add: cachedTile_def getResourceInfo_def computeResourceInfo_def loadedTile_fields)

text \<open>
  Claim C4 at a concrete tile.  \<^verbatim>\<open>prepareTileInfo\<close> assigns the road intersection
  record without invalidating the ledger: a ledger read before the assignment (heap
  size 64) is returned unchanged after it, although a recomputation gives 304.
\<close>

theorem prepareTileInfo_keeps_cached_ledger:
  "roadIntersectionData cachedTile = None
   \<and> roadIntersectionData staleTile = Some exampleRoadData
   \<and> heapSize (fst (getResourceInfo exampleEstimator cachedTile)) = 64
   \<and> heapSize (fst (getResourceInfo exampleEstimator staleTile)) = 64
   \<and> heapSize (computedResourceInfo exampleEstimator staleTile) = 304"
proof -
  have before: "heapSize (computedResourceInfo exampleEstimator loadedTile) = 64"
    by (simp add: computedResourceInfo_fields loadedTile_fields tileInfoBytes_def
        roadDataBytes_def exampleDecodedTile_def)
  have st: "staleTile = cachedTile\<lparr>roadIntersectionData := Some exampleRoadData\<rparr>"
    by (simp add: staleTile_def prepareTileInfo_def cachedTile_fields isVisible_def
        exampleMapView_def exampleDecodedTile_def)
  have stale_fields: "objects staleTile = []" "m_textElementGroups staleTile = []"
      "m_userTextElements staleTile = []" "m_decodedTile staleTile = Some exampleDecodedTile"
      "roadIntersectionData staleTile = Some exampleRoadData"
      "m_resourceInfo staleTile = m_resourceInfo cachedTile"
    by (simp_all add: st cachedTile_def getResourceInfo_def computeResourceInfo_def
        loadedTile_fields)
  have after: "heapSize (computedResourceInfo exampleEstimator staleTile) = 304"
    by (simp add: computedResourceInfo_fields stale_fields tileInfoBytes_def roadDataBytes_def
        exampleDecodedTile_def exampleRoadData_size)
  show ?thesis
    by (simp add: after before getResourceInfo_def cachedTile_fields stale_fields)
qed

subsection \<open>Decoded content and geometry state\<close>

text \<open>
  Claim C6, as the code has it.  After \<^verbatim>\<open>setDecodedTile(D)\<close> the bounding box of the
  tile is the box of \<open>D\<close> when \<open>D\<close> carries one and is otherwise the box the tile had
  before the call; for a tile fresh from the constructor that is the projection of its
  geo box.  In both cases the decoded content of the tile is \<open>D\<close>.
\<close>

theorem setDecodedTile_boundingBox:
  "boundingBox (snd (setDecodedTile statsEnabled d t)) =
     (case dt_boundingBox d of None \<Rightarrow> boundingBox t | Some b \<Rightarrow> b)
   \<and> boundingBox (snd (setDecodedTile statsEnabled d (newTile dataSource key off lts))) =
     (case dt_boundingBox d of
        None \<Rightarrow> projectBox dataSource (getGeoBox dataSource key)
      | Some b \<Rightarrow> b)
   \<and> m_decodedTile (snd (setDecodedTile statsEnabled d t)) = Some d"
  by (simp add: setDecodedTile_def Let_def invalidateResourceInfo_def newTile_def
      split: option.splits)

lemma refinedTile_boundingBox: "boundingBox refinedTile = tightBox"
  by (simp add: refinedTile_def setDecodedTile_def Let_def invalidateResourceInfo_def
      boxedDecodedTile_def)

lemma exampleTile_boundingBox:
  "boundingBox exampleTile = projectBox exampleDataSource (getGeoBox exampleDataSource exampleKey)"
  by (simp add: exampleTile_def newTile_def)

lemma geo_box_differs:
  "tightBox \<noteq> projectBox exampleDataSource (getGeoBox exampleDataSource exampleKey)"
  by (simp add: tightBox_def exampleDataSource_def)

text \<open>
  Claim C6 as stated fails on a tile that was refined before: decoded content without a
  box, here the empty one that \<^verbatim>\<open>forceHasGeometry(true)\<close> attaches, leaves the box of the
  earlier decoded content in place, which is not the box derived from the geo box.
\<close>

theorem setDecodedTile_boundingBox_counterexample:
  "dt_boundingBox defaultEmptyDecodedTile = None
   \<and> boundingBox exampleTile =
       projectBox exampleDataSource (getGeoBox exampleDataSource exampleKey)
   \<and> boundingBox (snd (setDecodedTile False defaultEmptyDecodedTile refinedTile)) = tightBox
   \<and> boundingBox (snd (forceHasGeometry False True refinedTile)) = tightBox
   \<and> boundingBox (snd (setDecodedTile False defaultEmptyDecodedTile refinedTile)) \<noteq>
       projectBox exampleDataSource (getGeoBox exampleDataSource exampleKey)"
proof -
  have none: "dt_boundingBox defaultEmptyDecodedTile = None"
    by (simp add: defaultEmptyDecodedTile_def)
  have kept: "boundingBox (snd (setDecodedTile False defaultEmptyDecodedTile refinedTile)) = tightBox"
    by (simp add: setDecodedTile_def Let_def invalidateResourceInfo_def none
        refinedTile_boundingBox)
  have forced: "boundingBox (snd (forceHasGeometry False True refinedTile)) = tightBox"
    by (simp add: forceHasGeometry_def setDecodedTile_def Let_def invalidateResourceInfo_def
        none refinedTile_boundingBox split: prod.splits)
  from none kept forced exampleTile_boundingBox geo_box_differs show ?thesis by simp
qed

text \<open>
  Claim C7.  For a tile with no geometry loader attached: after
  \<^verbatim>\<open>forceHasGeometry(true)\<close> the tile has geometry, and its basic and all geometry count
  as loaded, whatever its objects; and while the force flag is unset the three values
  equal "the object sequence is not empty".
\<close>

theorem forceHasGeometry_without_loader:
  assumes "m_tileGeometryLoader t = None"
  shows "(hasGeometry (snd (forceHasGeometry statsEnabled True t))
          \<and> allGeometryLoaded (snd (forceHasGeometry statsEnabled True t))
          \<and> basicGeometryLoaded (snd (forceHasGeometry statsEnabled True t)))
       \<and> (m_forceHasGeometry t = None \<longrightarrow>
            hasGeometry t = (objects t \<noteq> [])
          \<and> basicGeometryLoaded t = (objects t \<noteq> [])
          \<and> allGeometryLoaded t = (objects t \<noteq> []))"
  using assms
  by (simp add: forceHasGeometry_def setDecodedTile_def Let_def invalidateResourceInfo_def
      hasGeometry_def allGeometryLoaded_def basicGeometryLoaded_def split: option.splits)

theorem forceHasGeometry_without_loader_witness:
  "m_tileGeometryLoader exampleTile = None
   \<and> objects (snd (forceHasGeometry False True exampleTile)) = []
   \<and> hasGeometry (snd (forceHasGeometry False True exampleTile))
   \<and> allGeometryLoaded (snd (forceHasGeometry False True exampleTile))
   \<and> basicGeometryLoaded (snd (forceHasGeometry False True exampleTile))
   \<and> m_forceHasGeometry exampleTile = None
   \<and> \<not> hasGeometry exampleTile
   \<and> \<not> basicGeometryLoaded exampleTile
   \<and> \<not> allGeometryLoaded exampleTile"
proof -
  have a: "m_tileGeometryLoader exampleTile = None"
    by (simp add: exampleTile_def newTile_def)
  have b: "m_forceHasGeometry exampleTile = None" "objects exampleTile = []"
    by (simp_all add: exampleTile_def newTile_def)
  have c: "objects (snd (forceHasGeometry False True exampleTile)) = []"
    by (simp add: forceHasGeometry_def setDecodedTile_def Let_def invalidateResourceInfo_def
        defaultEmptyDecodedTile_def b)
  from forceHasGeometry_without_loader [OF a, of False] a b c show ?thesis by simp
qed

subsection \<open>Texture ownership\<close>

lemma disposeProperties_texture:
  "TextureDisposed x \<in> set (disposeProperties t ps) \<longleftrightarrow>
     x \<in> m_ownedTextures t \<and> x \<in> set (texturesOfProperties ps)"
  by (induction t ps rule: disposeProperties.induct)
     (auto simp: shouldDisposeTexture_def)

lemma disposeMaterial_texture:
  "TextureDisposed x \<in> set (disposeMaterial t mat) \<longleftrightarrow>
     x \<in> m_ownedTextures t \<and> x \<in> set (texturesOfProperties (properties mat))"
  by (simp add: disposeMaterial_def disposeProperties_texture)

lemma disposeMaterialArray_texture:
  "TextureDisposed x \<in> set (disposeMaterialArray t ms) \<longleftrightarrow>
     x \<in> m_ownedTextures t
     \<and> (\<exists>mat \<in> set (definedMaterials ms). x \<in> set (texturesOfProperties (properties mat)))"
  by (induction t ms rule: disposeMaterialArray.induct)
     (auto simp: disposeMaterial_texture)

lemma disposeObject_texture:
  "TextureDisposed x \<in> set (disposeObject t ob) \<longleftrightarrow>
     x \<in> m_ownedTextures t \<and> x \<in> set (texturesOfObject ob)"
proof (cases "material ob")
  case None
  then show ?thesis
    by (simp add: disposeObject_def texturesOfObject_def materialsOfObject_def
        split: option.splits)
next
  case (Some slot)
  show ?thesis
  proof (cases slot)
    case (SingleMaterial mat)
    with Some show ?thesis
      by (simp add: disposeObject_def texturesOfObject_def materialsOfObject_def
          shouldDisposeObjectMaterial_def disposeMaterial_texture split: option.splits)
  next
    case (MaterialArray ms)
    with Some show ?thesis
      by (simp add: disposeObject_def texturesOfObject_def materialsOfObject_def
          shouldDisposeObjectMaterial_def disposeMaterialArray_texture split: option.splits)
  qed
qed

lemma disposeAll_texture:
  "TextureDisposed x \<in> set (disposeAll t obs) \<longleftrightarrow>
     x \<in> m_ownedTextures t \<and> (\<exists>ob \<in> set obs. x \<in> set (texturesOfObject ob))"
  by (induction obs) (auto simp: disposeObject_texture)

lemma traverse_self: "ob \<in> set (traverse ob)"
  by (cases ob) simp

lemma disposeRoots_texture:
  "TextureDisposed x \<in> set (disposeRoots t roots) \<longleftrightarrow>
     x \<in> m_ownedTextures t \<and> x \<in> texturesOfObjects roots"
proof (induction roots)
  case Nil
  then show ?case by (simp add: texturesOfObjects_def)
next
  case (Cons r roots)
  have step: "texturesOfObjects (r # roots) =
      (\<Union>ob \<in> set (traverse r). set (texturesOfObject ob)) \<union> texturesOfObjects roots"
    by (simp add: texturesOfObjects_def)
  show ?case
    using Cons.IH traverse_self [of r]
    by (auto simp: step disposeAll_texture disposeObject_texture)
qed

lemma clear_texture:
  "TextureDisposed x \<in> set (fst (clear t)) \<longleftrightarrow>
     x \<in> m_ownedTextures t \<and> x \<in> texturesOfObjects (objects t)"
  by (auto simp: clear_def Let_def disposeRoots_texture split: option.splits)

lemma dispose_texture:
  "TextureDisposed x \<in> set (fst (dispose t)) \<longleftrightarrow>
     \<not> m_disposed t \<and> x \<in> m_ownedTextures t \<and> x \<in> texturesOfObjects (objects t)"
proof (cases "m_disposed t")
  case True
  then show ?thesis by (simp add: dispose_def)
next
  case False
  then show ?thesis
    by (simp add: dispose_unfold clear_texture detachLoaders_fields loaderEffects_def
        split: option.splits)
qed

text \<open>
  Claim C5.  \<^verbatim>\<open>clear\<close> disposes a texture exactly when it is found among the
  properties of a material of a visited object and is in the tile's set of owned
  textures; \<^verbatim>\<open>dispose\<close> does the same on a tile not yet disposed.  A texture that is not
  in the set is never disposed by either call.  The set is empty at construction and
  \<^verbatim>\<open>addOwnedTexture\<close> adds exactly its argument.
\<close>

theorem texture_disposal_owned_only:
  "(TextureDisposed x \<in> set (fst (clear t)) \<longleftrightarrow>
      x \<in> m_ownedTextures t \<and> x \<in> texturesOfObjects (objects t))
   \<and> (TextureDisposed x \<in> set (fst (dispose t)) \<longleftrightarrow>
      \<not> m_disposed t \<and> x \<in> m_ownedTextures t \<and> x \<in> texturesOfObjects (objects t))
   \<and> (x \<notin> m_ownedTextures t \<longrightarrow>
        TextureDisposed x \<notin> set (fst (clear t)) \<and> TextureDisposed x \<notin> set (fst (dispose t)))
   \<and> m_ownedTextures (newTile dataSource key off lts) = {}
   \<and> (x \<in> m_ownedTextures (addOwnedTexture y t) \<longleftrightarrow> x = y \<or> x \<in> m_ownedTextures t)"
  by (simp add: clear_texture dispose_texture newTile_def addOwnedTexture_def)

lemma example_owned:
  "m_ownedTextures tileA = {sharedTexture}" "m_ownedTextures tileB = {}"
  "\<not> m_disposed tileA" "\<not> m_disposed tileB"
  "objects tileA = [exampleMesh]" "objects tileB = [exampleMesh]"
  by (simp_all add: tileA_def tileB_def addOwnedTexture_def exampleTile_def newTile_def)

lemma example_reachable: "sharedTexture \<in> texturesOfObjects [exampleMesh]"
  by (simp add: texturesOfObjects_def texturesOfObject_def materialsOfObject_def
      exampleMesh_def exampleMaterial_def)

theorem texture_disposal_owned_only_witness:
  "sharedTexture \<in> texturesOfObjects (objects tileA)
   \<and> sharedTexture \<in> texturesOfObjects (objects tileB)
   \<and> sharedTexture \<in> m_ownedTextures tileA
   \<and> sharedTexture \<notin> m_ownedTextures tileB
   \<and> TextureDisposed sharedTexture \<in> set (fst (dispose tileA))
   \<and> TextureDisposed sharedTexture \<in> set (fst (clear tileA))
   \<and> TextureDisposed sharedTexture \<notin> set (fst (dispose tileB))
   \<and> TextureDisposed sharedTexture \<notin> set (fst (clear tileB))"
  using texture_disposal_owned_only [of sharedTexture tileA]
    texture_disposal_owned_only [of sharedTexture tileB]
    example_reachable
  by (simp add: example_owned)

subsection \<open>Removing a label whose priority changed\<close>

lemma removeFromGroup_not_found:
  "\<forall>(k, es) \<in> set gl. k = p \<longrightarrow> e \<notin> set es \<Longrightarrow> removeFromGroup p e gl = (False, gl)"
  by (induction gl) (auto split: prod.splits)

lemma addToGroup_only_key:
  "\<forall>(k, es) \<in> set gl. e \<notin> set es \<Longrightarrow> heldOnlyAt p e (addToGroup p e gl)"
  unfolding heldOnlyAt_def by (induction gl) (auto split: if_splits)

lemma addToGroup_other:
  "x \<noteq> e \<Longrightarrow> heldOnlyAt p e gl \<Longrightarrow> heldOnlyAt p e (addToGroup q x gl)"
  unfolding heldOnlyAt_def by (induction gl) (auto split: if_splits)

lemma removeFromGroup_held:
  "heldOnlyAt p e gl \<Longrightarrow> heldOnlyAt p e (snd (removeFromGroup q x gl))"
  unfolding heldOnlyAt_def
proof (induction gl)
  case Nil
  then show ?case by simp
next
  case (Cons g gl)
  obtain k es where g: "g = (k, es)" by (cases g)
  from Cons.prems g have tl: "\<forall>(k, es) \<in> set gl. e \<in> set es \<longrightarrow> k = p"
    and hd: "e \<in> set es \<longrightarrow> k = p"
    by auto
  from Cons.IH [OF tl] hd tl g show ?case
    by (auto split: prod.splits dest: notin_set_remove1)
qed

lemma removeTextElement_groups:
  "m_textElementGroups (snd (removeTextElement store x t)) =
     snd (removeFromGroup (priority (store x)) x (m_textElementGroups t))"
  by (cases "removeFromGroup (priority (store x)) x (m_textElementGroups t)")
     (simp add: removeTextElement_def GroupedPriorityList_remove_def)

lemma applyTextOp_held:
  assumes "heldOnlyAt p e (m_textElementGroups t)" and "snd op \<noteq> AddTextElement e"
  shows "heldOnlyAt p e (m_textElementGroups (applyTextOp op t))"
proof (cases op)
  case (Pair store a)
  show ?thesis
  proof (cases a)
    case (AddTextElement x)
    with Pair assms show ?thesis
      by (simp add: addTextElement_def GroupedPriorityList_add_def addToGroup_other)
  next
    case (RemoveTextElement x)
    with Pair removeFromGroup_held [OF assms(1), of "priority (store x)" x] show ?thesis
      by (simp add: removeTextElement_groups)
  next
    case (SetTextElementsChanged c)
    with Pair assms show ?thesis by simp
  qed
qed

lemma applyTextOps_held:
  "heldOnlyAt p e (m_textElementGroups t) \<Longrightarrow> \<forall>op \<in> set ops. snd op \<noteq> AddTextElement e
     \<Longrightarrow> heldOnlyAt p e (m_textElementGroups (applyTextOps ops t))"
  by (induction ops arbitrary: t) (simp_all add: applyTextOp_held)

text \<open>
  Claim C9, amended.  Let a text element be added to a tile that did not hold it, let
  any calls on the labels of the tile follow that do not add the element again, and let
  its priority at the time of removal differ from its priority at insertion.  Then
  \<^verbatim>\<open>removeTextElement\<close> returns false and leaves the tile, its grouped label collection
  and its \<^verbatim>\<open>textElementsChanged\<close> flag as they were.
\<close>

theorem removeTextElement_stale_priority:
  assumes fresh: "\<forall>(k, es) \<in> set (m_textElementGroups t). e \<notin> set es"
      and later: "\<forall>op \<in> set ops. snd op \<noteq> AddTextElement e"
      and mutated: "priority (store' e) \<noteq> priority (store e)"
  shows "removeTextElement store' e (applyTextOps ops (addTextElement store e t)) =
           (False, applyTextOps ops (addTextElement store e t))"
proof -
  let ?t = "applyTextOps ops (addTextElement store e t)"
  have "heldOnlyAt (priority (store e)) e (m_textElementGroups (addTextElement store e t))"
    using addToGroup_only_key [OF fresh, of "priority (store e)"]
    by (simp add: addTextElement_def GroupedPriorityList_add_def)
  then have "heldOnlyAt (priority (store e)) e (m_textElementGroups ?t)"
    using later by (rule applyTextOps_held)
  with mutated
  have "\<forall>(k, es) \<in> set (m_textElementGroups ?t). k = priority (store' e) \<longrightarrow> e \<notin> set es"
    by (auto simp: heldOnlyAt_def)
  then have "removeFromGroup (priority (store' e)) e (m_textElementGroups ?t) =
      (False, m_textElementGroups ?t)"
    by (rule removeFromGroup_not_found)
  then show ?thesis
    by (simp add: removeTextElement_def GroupedPriorityList_remove_def)
qed

lemma example_priorities:
  "priority (exampleStore r) = 1" "priority (mutatedStore 3) = 2" "priority (mutatedStore 5) = 1"
  by (simp_all add: mutatedStore_def exampleStore_def)

lemma exampleTile_groups: "m_textElementGroups exampleTile = []"
  by (simp add: exampleTile_def newTile_def)

theorem removeTextElement_stale_priority_witness:
  "m_textElementGroups exampleTile = []
   \<and> priority (mutatedStore 3) \<noteq> priority (exampleStore 3)
   \<and> m_textElementGroups
        (applyTextOps [(mutatedStore, AddTextElement 5), (mutatedStore, SetTextElementsChanged False)]
           (addTextElement exampleStore 3 exampleTile)) = [(1, [3, 5])]
   \<and> removeTextElement mutatedStore 3
        (applyTextOps [(mutatedStore, AddTextElement 5), (mutatedStore, SetTextElementsChanged False)]
           (addTextElement exampleStore 3 exampleTile)) =
      (False,
       applyTextOps [(mutatedStore, AddTextElement 5), (mutatedStore, SetTextElementsChanged False)]
         (addTextElement exampleStore 3 exampleTile))
   \<and> fst (removeTextElement exampleStore 3 (addTextElement exampleStore 3 exampleTile))"
proof -
  let ?ops = "[(mutatedStore, AddTextElement 5), (mutatedStore, SetTextElementsChanged False)]"
  have fresh: "\<forall>(k, es) \<in> set (m_textElementGroups exampleTile). 3 \<notin> set es"
    by (simp add: exampleTile_groups)
  have later: "\<forall>op \<in> set ?ops. snd op \<noteq> AddTextElement 3"
    by simp
  have mutated: "priority (mutatedStore 3) \<noteq> priority (exampleStore 3)"
    by (simp add: example_priorities)
  have groups1: "m_textElementGroups (addTextElement exampleStore 3 exampleTile) = [(1, [3])]"
    by (simp add: addTextElement_def GroupedPriorityList_add_def example_priorities
        exampleTile_groups)
  have groups: "m_textElementGroups (applyTextOps ?ops (addTextElement exampleStore 3 exampleTile))
      = [(1, [3, 5])]"
    by (simp add: addTextElement_def GroupedPriorityList_add_def example_priorities
        exampleTile_groups)
  have ok: "fst (removeTextElement exampleStore 3 (addTextElement exampleStore 3 exampleTile))"
    by (simp add: removeTextElement_def GroupedPriorityList_remove_def groups1 example_priorities)
  from removeTextElement_stale_priority [of exampleTile 3 ?ops mutatedStore exampleStore]
    fresh later mutated
  have "removeTextElement mutatedStore 3
          (applyTextOps ?ops (addTextElement exampleStore 3 exampleTile)) =
        (False, applyTextOps ?ops (addTextElement exampleStore 3 exampleTile))"
    by blast
  with exampleTile_groups mutated groups ok show ?thesis by simp
qed

lemma twiceAddedTile_groups: "m_textElementGroups twiceAddedTile = [(2, [3]), (1, [3])]"
  by (simp add: twiceAddedTile_def addTextElement_def GroupedPriorityList_add_def
      example_priorities exampleTile_groups)

text \<open>
  Claim C9 as stated fails for an element that the tile holds in two buckets: added at
  priority 2, changed to 1, added again and changed back to 2, the element is found in the
  bucket of its current priority, so the removal succeeds and sets the flag.
\<close>

theorem removeTextElement_counterexample:
  "priority (mutatedStore 3) \<noteq> priority (exampleStore 3)
   \<and> m_textElementGroups twiceAddedTile = [(2, [3]), (1, [3])]
   \<and> fst (removeTextElement mutatedStore 3 twiceAddedTile)
   \<and> m_textElementGroups (snd (removeTextElement mutatedStore 3 twiceAddedTile)) =
       [(2, []), (1, [3])]
   \<and> m_textElementsChanged
       (snd (removeTextElement mutatedStore 3 (twiceAddedTile\<lparr>m_textElementsChanged := False\<rparr>)))"
  by (simp add: removeTextElement_def GroupedPriorityList_remove_def twiceAddedTile_groups
      example_priorities)

end
